theory Spec2Isabelle
  imports Main "HOL-Library.Sublist"
begin

section \<open>JavaScript values\<close>

text \<open>
  The values that flow through \<^verbatim>\<open>client.js\<close>: environment variables, tokens, the
  provider's profile and the extra token parameters. Numbers are restricted to integers
  (status codes, \<^verbatim>\<open>expires_in\<close>); functions are not values of the model, method calls are
  modelled by \<open>call_method\<close> below. Strings are byte lists.
\<close>

datatype jsval =
    Undefined
  | Null
  | JBool bool
  | JNum int
  | JStr string
  | JObj "(string \<times> jsval) list"

datatype js_error = TypeError (message: string) | Error (message: string)

text \<open>ToBoolean: what \<^verbatim>\<open>!x\<close>, \<^verbatim>\<open>x && y\<close>, \<^verbatim>\<open>x || y\<close> and \<^verbatim>\<open>x ? a : b\<close> test.\<close>

fun truthy :: "jsval \<Rightarrow> bool" where
  "truthy Undefined = False"
| "truthy Null = False"
| "truthy (JBool b) = b"
| "truthy (JNum n) = (n \<noteq> 0)"
| "truthy (JStr s) = (s \<noteq> [])"
| "truthy (JObj fs) = True"

definition digit_char :: "nat \<Rightarrow> char" where
  "digit_char d = ''0123456789ABCDEF'' ! (d mod 16)"

function string_of_nat :: "nat \<Rightarrow> string" where
  "string_of_nat n =
     (if n < 10 then [digit_char n] else string_of_nat (n div 10) @ [digit_char (n mod 10)])"
  by pat_completeness auto
termination
  by (relation "measure (\<lambda>n. n)") auto

text \<open>ToString, as a template literal \<^verbatim>\<open>`${x}`\<close> and string concatenation apply it.\<close>

fun to_string :: "jsval \<Rightarrow> string" where
  "to_string Undefined = ''undefined''"
| "to_string Null = ''null''"
| "to_string (JBool b) = (if b then ''true'' else ''false'')"
| "to_string (JNum n) = (if n < 0 then ''-'' @ string_of_nat (nat (- n)) else string_of_nat (nat n))"
| "to_string (JStr s) = s"
| "to_string (JObj fs) = ''[object Object]''"

text \<open>The message of the error thrown when a property of \<^verbatim>\<open>undefined\<close> or \<^verbatim>\<open>null\<close> is read.\<close>

definition cannot_read :: "string \<Rightarrow> string \<Rightarrow> string" where
  "cannot_read what k =
     ''Cannot read properties of '' @ what @ '' (reading '' @ [CHR 0x27] @ k @ [CHR 0x27] @ '')''"

text \<open>
  Reading a data property \<^verbatim>\<open>v.k\<close>. On \<^verbatim>\<open>undefined\<close> and \<^verbatim>\<open>null\<close> it throws; on an
  object it is the stored field or \<^verbatim>\<open>undefined\<close>; a string has \<^verbatim>\<open>length\<close> and no other
  data property; numbers and booleans have none.
\<close>

fun member :: "jsval \<Rightarrow> string \<Rightarrow> js_error + jsval" where
  "member Undefined k = Inl (TypeError (cannot_read ''undefined'' k))"
| "member Null k = Inl (TypeError (cannot_read ''null'' k))"
| "member (JObj fs) k = Inr (case map_of fs k of None \<Rightarrow> Undefined | Some v \<Rightarrow> v)"
| "member (JStr s) k = Inr (if k = ''length'' then JNum (int (length s)) else Undefined)"
| "member (JBool b) k = Inr Undefined"
| "member (JNum n) k = Inr Undefined"

text \<open>
  The guarded read \<^verbatim>\<open>v && v.k\<close>: the property is read only when \<open>v\<close> is truthy (and then
  the read cannot throw); otherwise the value of the expression is \<open>v\<close> itself.
\<close>

definition guarded_member :: "jsval \<Rightarrow> string \<Rightarrow> jsval" where
  "guarded_member v k =
     (if truthy v then (case member v k of Inr x \<Rightarrow> x | Inl e \<Rightarrow> Undefined) else v)"

text \<open>
  A method call \<^verbatim>\<open>v.m(args)\<close>, for the three methods the program calls:
  \<^verbatim>\<open>toString()\<close>, \<^verbatim>\<open>slice(0, n)\<close> and \<^verbatim>\<open>append(k, v)\<close>. No value of the model has an
  \<^verbatim>\<open>append\<close> method (only a \<^verbatim>\<open>URLSearchParams\<close> has, and the program builds none), and
  only strings have \<^verbatim>\<open>slice\<close>.
\<close>

definition js_slice :: "string \<Rightarrow> int \<Rightarrow> int \<Rightarrow> string" where
  "js_slice s a b =
     (let len = int (length s);
          from = (if a < 0 then max (len + a) 0 else min a len);
          to = (if b < 0 then max (len + b) 0 else min b len)
      in take (nat (to - from)) (drop (nat from) s))"

fun call_method :: "jsval \<Rightarrow> string \<Rightarrow> jsval list \<Rightarrow> js_error + jsval" where
  "call_method Undefined m args = Inl (TypeError (cannot_read ''undefined'' m))"
| "call_method Null m args = Inl (TypeError (cannot_read ''null'' m))"
| "call_method (JStr s) m args =
     (if m = ''toString'' then Inr (JStr s)
      else if m = ''slice'' then
        (case args of
           [JNum a, JNum b] \<Rightarrow> Inr (JStr (js_slice s a b))
         | _ \<Rightarrow> Inl (TypeError (m @ '' is not a function'')))
      else Inl (TypeError (m @ '' is not a function'')))"
| "call_method v m args =
     (if m = ''toString'' then Inr (JStr (to_string v))
      else Inl (TypeError (m @ '' is not a function'')))"

text \<open>
  \<^verbatim>\<open>encodeURIComponent\<close> on a byte string: the unreserved characters are kept, every
  other byte becomes \<^verbatim>\<open>%XX\<close>.
\<close>

definition unreserved :: "char \<Rightarrow> bool" where
  "unreserved c =
     (c \<in> set ''ABCDEFGHIJKLMNOPQRSTUVWXYZabcdefghijklmnopqrstuvwxyz0123456789-_.!~*()''
      \<or> c = CHR 0x27)"

definition encodeURIComponent :: "string \<Rightarrow> string" where
  "encodeURIComponent s =
     concat (map (\<lambda>c. if unreserved c then [c]
                       else [CHR ''%'', digit_char (of_char c div 16), digit_char (of_char c mod 16)]) s)"

section \<open>Configuration and startup (client.js, lines 14-26 and 185-188)\<close>

text \<open>
  \<^verbatim>\<open>process.env\<close> maps a name to a string or to nothing. The six constants are read once,
  at startup; an absent variable is \<^verbatim>\<open>undefined\<close>.
\<close>

type_synonym env = "string \<rightharpoonup> string"

record config =
  AUTH0_DOMAIN :: "string option"
  AUTH0_CLIENT_ID :: "string option"
  AUTH0_CLIENT_SECRET :: "string option"
  AUTH0_CALLBACK_URL :: "string option"
  API_BASE_URL :: "string option"
  PORT :: "string option"

definition load_config :: "env \<Rightarrow> config" where
  "load_config e =
     \<lparr> AUTH0_DOMAIN = e ''AUTH0_DOMAIN'',
       AUTH0_CLIENT_ID = e ''AUTH0_CLIENT_ID'',
       AUTH0_CLIENT_SECRET = e ''AUTH0_CLIENT_SECRET'',
       AUTH0_CALLBACK_URL = e ''AUTH0_CALLBACK_URL'',
       API_BASE_URL = e ''API_BASE_URL'',
       PORT = e ''PORT'' \<rparr>"

definition env_val :: "string option \<Rightarrow> jsval" where
  "env_val x = (case x of None \<Rightarrow> Undefined | Some s \<Rightarrow> JStr s)"

text \<open>The names of the six variables the startup check reads.\<close>

definition required_env :: "string list" where
  "required_env =
     [''AUTH0_DOMAIN'', ''AUTH0_CLIENT_ID'', ''AUTH0_CLIENT_SECRET'',
      ''AUTH0_CALLBACK_URL'', ''API_BASE_URL'', ''PORT'']"

text \<open>The condition of the \<^verbatim>\<open>if\<close> on line 23.\<close>

definition missing_config :: "config \<Rightarrow> bool" where
  "missing_config c =
     (\<not> truthy (env_val (AUTH0_DOMAIN c)) \<or> \<not> truthy (env_val (AUTH0_CLIENT_ID c))
      \<or> \<not> truthy (env_val (AUTH0_CLIENT_SECRET c)) \<or> \<not> truthy (env_val (AUTH0_CALLBACK_URL c))
      \<or> \<not> truthy (env_val (API_BASE_URL c)) \<or> \<not> truthy (env_val (PORT c)))"

section \<open>Effects\<close>

text \<open>
  What a run of the program does to the outside, in order. A response is what Express
  sends: \<^verbatim>\<open>res.redirect(url)\<close>, \<^verbatim>\<open>res.status(c).send(body)\<close> (the status is 200 unless
  set), the framework's page for an error passed to \<^verbatim>\<open>next(err)\<close>, or its 404 page for a
  path with no route.
\<close>

datatype response =
    Redirect string
  | Send nat string
  | ErrorPage js_error
  | NotFound

record identity =
  profile :: jsval
  accessToken :: jsval
  idToken :: jsval
  tokenType :: jsval
  expiresIn :: jsval

datatype logged = LStr string | LErr js_error | LUser "identity option"

datatype effect =
    ConsoleError "logged list"
  | ConsoleLog "logged list"
  | ProcessExit nat
  | Listen jsval
  | Outbound string "(string \<times> string) list"
  | Respond response
  | Uncaught js_error

definition missing_message :: string where
  "missing_message = ''Error: Missing required environment variables. Please check your .env file.''"

text \<open>
  The top level of the module: \<^verbatim>\<open>process.exit(1)\<close> ends the process, so nothing after
  line 25 runs when a variable is missing; otherwise the application is set up and
  \<^verbatim>\<open>app.listen(PORT, ...)\<close> binds the listener and logs two lines.
\<close>

definition startup :: "env \<Rightarrow> effect list" where
  "startup e =
     (let c = load_config e in
      if missing_config c
      then [ConsoleError [LStr missing_message], ProcessExit 1]
      else [Listen (env_val (PORT c)),
            ConsoleLog [LStr (''Node.js client running on http://localhost:'' @ to_string (env_val (PORT c)))],
            ConsoleLog [LStr ''Visit /login to start the Auth0 flow.'']])"

fun is_listen :: "effect \<Rightarrow> bool" where
  "is_listen (Listen p) = True"
| "is_listen e = False"

fun exit_codes :: "effect list \<Rightarrow> nat list" where
  "exit_codes [] = []"
| "exit_codes (ProcessExit n # es) = n # exit_codes es"
| "exit_codes (e # es) = exit_codes es"

section \<open>Sessions, requests and the Passport middleware (lines 32-42 and 72-76)\<close>

text \<open>
  The session holds what Passport stores under \<^verbatim>\<open>req.session.passport.user\<close>. A request,
  as a handler sees it, carries its session, \<^verbatim>\<open>req.user\<close> and the method
  \<^verbatim>\<open>req.isAuthenticated\<close>, which is absent until \<^verbatim>\<open>passport.initialize()\<close> has installed it;
  the method reads \<^verbatim>\<open>req.user\<close>.
\<close>

record session =
  passport_user :: "identity option"

record request =
  session :: session
  user :: "identity option"
  isAuthenticated :: "(identity option \<Rightarrow> bool) option"

text \<open>Lines 73-74: the user is stored in the session, and read back, as it is.\<close>

definition serializeUser :: "identity \<Rightarrow> js_error option \<times> identity" where
  "serializeUser u = (None, u)"

definition deserializeUser :: "identity \<Rightarrow> js_error option \<times> identity" where
  "deserializeUser u = (None, u)"

text \<open>
  The three middlewares every request passes before its route (lines 32, 75, 76), as the
  libraries behave: \<^verbatim>\<open>express-session\<close> attaches the session, \<^verbatim>\<open>passport.initialize()\<close>
  installs \<^verbatim>\<open>isAuthenticated\<close> (true when \<^verbatim>\<open>req.user\<close> is set), \<^verbatim>\<open>passport.session()\<close>
  sets \<^verbatim>\<open>req.user\<close> to the deserialized session user when there is one.
\<close>

definition express_session :: "session \<Rightarrow> request" where
  "express_session s = \<lparr> session = s, user = None, isAuthenticated = None \<rparr>"

definition passport_initialize :: "request \<Rightarrow> request" where
  "passport_initialize req = req \<lparr> isAuthenticated := Some (\<lambda>u. u \<noteq> None) \<rparr>"

definition passport_session :: "request \<Rightarrow> request" where
  "passport_session req =
     (case passport_user (session req) of
        None \<Rightarrow> req
      | Some su \<Rightarrow>
          (case deserializeUser su of
             (None, u) \<Rightarrow> req \<lparr> user := Some u \<rparr>
           | (Some err, u) \<Rightarrow> req))"

definition incoming :: "session \<Rightarrow> request" where
  "incoming s = passport_session (passport_initialize (express_session s))"

section \<open>The verify callback (lines 57-67)\<close>

text \<open>The pair is the call \<^verbatim>\<open>done(null, user)\<close>: no error, and the user object built.\<close>

definition verify :: "jsval \<Rightarrow> jsval \<Rightarrow> jsval \<Rightarrow> jsval \<Rightarrow> js_error option \<times> identity" where
  "verify accessToken' refreshToken extraParams profile' =
     (None,
      \<lparr> profile = profile',
        accessToken = accessToken',
        idToken = guarded_member extraParams ''id_token'',
        tokenType = guarded_member extraParams ''token_type'',
        expiresIn = guarded_member extraParams ''expires_in'' \<rparr>)"

section \<open>Helpers (lines 79-98)\<close>

datatype flow = Next | Stop

text \<open>The expression \<^verbatim>\<open>req.isAuthenticated && req.isAuthenticated()\<close>, as a condition.\<close>

definition loggedIn :: "request \<Rightarrow> bool" where
  "loggedIn req = (case isAuthenticated req of None \<Rightarrow> False | Some f \<Rightarrow> f (user req))"

definition ensureLoggedIn :: "request \<Rightarrow> flow \<times> effect list" where
  "ensureLoggedIn req =
     (if loggedIn req then (Next, []) else (Stop, [Respond (Redirect ''/login'')]))"

definition home_page :: "bool \<Rightarrow> string" where
  \<open>home_page li =
     ''\<newline>        <h1>Home</h1>\<newline>        <p>Status: ''
     @ (if li then ''Logged In'' else ''Logged Out'')
     @ ''</p>\<newline>        <ul>\<newline>''
     @ ''            <li><a href="/login">Login</a></li>\<newline>''
     @ ''            <li><a href="/logout">Logout</a></li>\<newline>''
     @ ''            <li><a href="/profile">Profile</a></li>\<newline>''
     @ ''            <li><a href="/call-api">Call Sprint Boot /secure-data</a></li>\<newline>''
     @ ''        </ul>\<newline>    ''\<close>

definition homePage :: "request \<Rightarrow> effect list" where
  "homePage req = [Respond (Send 200 (home_page (loggedIn req)))]"

section \<open>Login and callback (lines 106-122)\<close>

text \<open>
  What the provider's side of a request to \<^verbatim>\<open>/login\<close> or \<^verbatim>\<open>/callback\<close> amounts to, as the
  Auth0 strategy sees it: the tokens and profile of a granted login (\<open>Granted\<close>); a denial
  or an error that the provider reports in the callback, on which the strategy takes its
  \<^verbatim>\<open>fail\<close> action (\<open>Refused\<close>); an error in the strategy's own work, such as a token
  exchange request that does not complete, on which it takes its \<^verbatim>\<open>error\<close> action
  (\<open>StrategyError\<close>); or no code yet, so that the browser is sent to the provider
  (\<open>Authorize\<close>).
\<close>

datatype provider_result =
    Granted jsval jsval jsval jsval
  | Refused
  | StrategyError js_error
  | Authorize string

datatype action = Success identity | Fail | RedirectTo string | Err js_error

text \<open>
  The strategy calls the verify callback with the granted tokens, and acts on what
  \<^verbatim>\<open>done\<close> receives.
\<close>

definition auth0_strategy :: "provider_result \<Rightarrow> action" where
  "auth0_strategy p =
     (case p of
        Granted a r e pr \<Rightarrow>
          (case verify a r e pr of (None, u) \<Rightarrow> Success u | (Some err, u) \<Rightarrow> Err err)
      | Refused \<Rightarrow> Fail
      | StrategyError err \<Rightarrow> Err err
      | Authorize url \<Rightarrow> RedirectTo url)"

text \<open>
  \<^verbatim>\<open>passport.authenticate('auth0', options)\<close> as a middleware, where the only option
  that matters to the response is \<^verbatim>\<open>failureRedirect\<close>. On success it logs the user in
  (\<^verbatim>\<open>req.user\<close> and the serialized user in the session) and calls \<^verbatim>\<open>next()\<close>; on a failure
  it redirects to \<^verbatim>\<open>failureRedirect\<close>, or answers 401 without one; an error goes to
  \<^verbatim>\<open>next(err)\<close>, which no handler of this program takes, so the framework answers.
\<close>

definition passport_authenticate ::
  "string option \<Rightarrow> provider_result \<Rightarrow> request \<Rightarrow> flow \<times> request \<times> effect list" where
  "passport_authenticate failureRedirect p req =
     (case auth0_strategy p of
        Success u \<Rightarrow>
          (case serializeUser u of
             (None, su) \<Rightarrow>
               (Next, req \<lparr> session := \<lparr> passport_user = Some su \<rparr>, user := Some u \<rparr>, [])
           | (Some err, su) \<Rightarrow> (Stop, req, [Respond (ErrorPage err)]))
      | Fail \<Rightarrow>
          (case failureRedirect of
             Some url \<Rightarrow> (Stop, req, [Respond (Redirect url)])
           | None \<Rightarrow> (Stop, req, [Respond (Send 401 ''Unauthorized'')]))
      | RedirectTo url \<Rightarrow> (Stop, req, [Respond (Redirect url)])
      | Err err \<Rightarrow> (Stop, req, [Respond (ErrorPage err)]))"

definition callback_handler :: "request \<Rightarrow> effect list" where
  "callback_handler req =
     [ConsoleLog [LStr ''User after login:'', LUser (user req)], Respond (Redirect ''/profile'')]"

section \<open>Logout (lines 125-136)\<close>

text \<open>
  The callback given to \<^verbatim>\<open>req.logout\<close>: it yields the response it sends, or the error it
  throws on the way.
\<close>

definition logout_callback :: "config \<Rightarrow> js_error + response" where
  "logout_callback cfg =
     (let returnTo = encodeURIComponent (''http://localhost:'' @ to_string (env_val (PORT cfg)) @ ''/'');
          logoutURL = JStr (''https://'' @ to_string (env_val (AUTH0_DOMAIN cfg)) @ ''/v2/logout'')
      in case member logoutURL ''searchParams'' of
           Inl e \<Rightarrow> Inl e
         | Inr sp \<Rightarrow>
             (case call_method sp ''append'' [JStr ''client_id'', env_val (AUTH0_CLIENT_ID cfg)] of
                Inl e \<Rightarrow> Inl e
              | Inr r1 \<Rightarrow>
                  (case call_method sp ''append'' [JStr ''returnTo'', JStr returnTo] of
                     Inl e \<Rightarrow> Inl e
                   | Inr r2 \<Rightarrow>
                       (case call_method logoutURL ''toString'' [] of
                          Inl e \<Rightarrow> Inl e
                        | Inr u \<Rightarrow> Inr (Redirect (to_string u))))))"

text \<open>
  \<^verbatim>\<open>req.logout(cb)\<close> clears \<^verbatim>\<open>req.user\<close> and the session's user. What it does with the
  callback depends on the Passport release: before 0.6 the argument is ignored; from 0.6
  on it is called after the session has been saved and regenerated, which the default
  memory store completes on a later tick of the event loop, after the handler has
  returned.
\<close>

datatype callback_mode = Dropped | Deferred

definition req_logout :: "request \<Rightarrow> request" where
  "req_logout req = req \<lparr> session := \<lparr> passport_user = None \<rparr>, user := None \<rparr>"

definition headers_sent :: js_error where
  "headers_sent = Error ''Cannot set headers after they are sent to the client''"

text \<open>
  The handler calls \<^verbatim>\<open>req.logout\<close> and then, in any case, \<^verbatim>\<open>res.redirect('/')\<close>. A deferred
  callback runs after that response: what it throws is an uncaught exception, and a
  redirect it reached would find the headers sent.
\<close>

definition logout_handler :: "config \<Rightarrow> callback_mode \<Rightarrow> request \<Rightarrow> request \<times> effect list" where
  "logout_handler cfg cm req =
     (let req' = req_logout req in
      case cm of
        Dropped \<Rightarrow> (req', [Respond (Redirect ''/'')])
      | Deferred \<Rightarrow>
          (req', Respond (Redirect ''/'') #
                 (case logout_callback cfg of
                    Inl e \<Rightarrow> [Uncaught e]
                  | Inr r \<Rightarrow> [Uncaught headers_sent])))"

section \<open>Profile (lines 139-150)\<close>

text \<open>The expression \<^verbatim>\<open>t ? t.slice(0, 40) + '...' : 'none'\<close>.\<close>

definition token_preview :: "jsval \<Rightarrow> js_error + string" where
  "token_preview t =
     (if truthy t
      then (case call_method t ''slice'' [JNum 0, JNum 40] of
              Inl e \<Rightarrow> Inl e
            | Inr v \<Rightarrow> Inr (to_string v @ ''...''))
      else Inr ''none'')"

definition profile_page :: "string \<Rightarrow> string \<Rightarrow> string \<Rightarrow> string" where
  \<open>profile_page p i a =
     ''\<newline>        <h1>Profile</h1>\<newline>        <pre>'' @ p
     @ ''</pre>\<newline>        <h3>Tokens</h3>\<newline>        <p>ID Token (JWT): '' @ i
     @ ''</p>\<newline>        <p>Access Token: '' @ a
     @ ''</p>\<newline>        <p><a href="/call-api">Call Protected Spring API</a></p>\<newline>''
     @ ''        <p><a href="/">Home</a></p>\<newline>    ''\<close>

text \<open>
  \<^verbatim>\<open>JSON.stringify\<close> is a parameter. An exception thrown in the handler is caught by the
  framework, which answers with its error page.
\<close>

definition profile_handler :: "(jsval \<Rightarrow> jsval) \<Rightarrow> request \<Rightarrow> effect list" where
  "profile_handler stringify req =
     (let profile' = (case user req of None \<Rightarrow> Undefined | Some u \<Rightarrow> profile u);
          idToken' = (case user req of None \<Rightarrow> Undefined | Some u \<Rightarrow> idToken u);
          accessToken' = (case user req of None \<Rightarrow> Undefined | Some u \<Rightarrow> accessToken u)
      in case token_preview idToken' of
           Inl e \<Rightarrow> [Respond (ErrorPage e)]
         | Inr i \<Rightarrow>
             (case token_preview accessToken' of
                Inl e \<Rightarrow> [Respond (ErrorPage e)]
              | Inr a \<Rightarrow> [Respond (Send 200 (profile_page (to_string (stringify profile')) i a))]))"

section \<open>The call to the protected API (lines 153-182)\<close>

text \<open>
  The answer of the outside to \<^verbatim>\<open>fetch(url, {headers})\<close>: the promise rejects, or it
  resolves to a response with a status, whose \<^verbatim>\<open>text()\<close> gives the body or rejects.
\<close>

datatype fetch_result = Rejected js_error | Resolved nat "js_error + string"

definition api_page :: "string \<Rightarrow> nat \<Rightarrow> string" where
  \<open>api_page text status =
     ''\<newline>            <h2>Spring Boot API Response</h2>\<newline>            <pre>'' @ text
     @ ''</pre>\<newline>            <p>Status: '' @ to_string (JNum (int status))
     @ ''</p>\<newline>            <p><a href="/">Home</a></p>\<newline>        ''\<close>

definition error_page :: "string \<Rightarrow> string" where
  \<open>error_page msg =
     ''\<newline>            <h2>Error Calling Protected API</h2>\<newline>            <p>'' @ msg
     @ ''</p>\<newline>            <p><a href="/">Home</a></p>\<newline>        ''\<close>

text \<open>The \<^verbatim>\<open>catch\<close> block.\<close>

definition catch_block :: "js_error \<Rightarrow> effect list" where
  "catch_block err =
     [ConsoleError [LStr ''Error calling protected API:'', LErr err],
      Respond (Send 500 (error_page (message err)))]"

definition call_api ::
  "config \<Rightarrow> (string \<Rightarrow> (string \<times> string) list \<Rightarrow> fetch_result) \<Rightarrow> request \<Rightarrow> effect list" where
  "call_api cfg fetch req =
     (let accessToken' = (case user req of None \<Rightarrow> Undefined | Some u \<Rightarrow> accessToken u) in
      if \<not> truthy accessToken'
      then [Respond (Send 401 ''No access token. Please log in again.'')]
      else
        let url = to_string (if truthy (env_val (API_BASE_URL cfg)) then env_val (API_BASE_URL cfg)
                             else JStr ''http://localhost:8080'') @ ''/secure-data'';
            headers = [(''Authorization'', ''Bearer '' @ to_string accessToken')]
        in Outbound url headers #
           (case fetch url headers of
              Rejected err \<Rightarrow> catch_block err
            | Resolved status body \<Rightarrow>
                (case body of
                   Inl err \<Rightarrow> catch_block err
                 | Inr text \<Rightarrow> [Respond (Send 200 (api_page text status))])))"

section \<open>The routes (lines 103-182)\<close>

text \<open>
  The route Express matched for a GET request, and the outside of one request: the
  answer to its \<^verbatim>\<open>fetch\<close>, the provider's side of a login, the Passport release's way
  with the logout callback, and \<^verbatim>\<open>JSON.stringify\<close>.
\<close>

datatype route = Root | Login | Callback | Logout | Profile | CallApi | NoRoute

record world =
  fetch :: "string \<Rightarrow> (string \<times> string) list \<Rightarrow> fetch_result"
  provider :: provider_result
  logout_mode :: callback_mode
  JSON_stringify :: "jsval \<Rightarrow> jsval"

text \<open>
  One request: the session it came with goes in, the session it leaves and the effects
  come out. A route whose handlers all call \<^verbatim>\<open>next()\<close> ends in the 404 page.
\<close>

definition app_get :: "config \<Rightarrow> world \<Rightarrow> route \<Rightarrow> session \<Rightarrow> session \<times> effect list" where
  "app_get cfg w r s =
     (let req = incoming s in
      case r of
        Root \<Rightarrow> (session req, homePage req)
      | Login \<Rightarrow>
          (case passport_authenticate None (provider w) req of
             (Next, req', es) \<Rightarrow> (session req', es @ [Respond NotFound])
           | (Stop, req', es) \<Rightarrow> (session req', es))
      | Callback \<Rightarrow>
          (case passport_authenticate (Some ''/'') (provider w) req of
             (Next, req', es) \<Rightarrow> (session req', es @ callback_handler req')
           | (Stop, req', es) \<Rightarrow> (session req', es))
      | Logout \<Rightarrow>
          (case logout_handler cfg (logout_mode w) req of (req', es) \<Rightarrow> (session req', es))
      | Profile \<Rightarrow>
          (case ensureLoggedIn req of
             (Next, es) \<Rightarrow> (session req, es @ profile_handler (JSON_stringify w) req)
           | (Stop, es) \<Rightarrow> (session req, es))
      | CallApi \<Rightarrow>
          (case ensureLoggedIn req of
             (Next, es) \<Rightarrow> (session req, es @ call_api cfg (fetch w) req)
           | (Stop, es) \<Rightarrow> (session req, es))
      | NoRoute \<Rightarrow> (session req, [Respond NotFound]))"

text \<open>Projections of a trace: the responses sent and the outbound requests made.\<close>

fun responses :: "effect list \<Rightarrow> response list" where
  "responses [] = []"
| "responses (Respond r # es) = r # responses es"
| "responses (e # es) = responses es"

fun outbound :: "effect list \<Rightarrow> (string \<times> (string \<times> string) list) list" where
  "outbound [] = []"
| "outbound (Outbound u h # es) = (u, h) # outbound es"
| "outbound (e # es) = outbound es"

section \<open>Example inputs\<close>

definition example_env :: env where
  "example_env =
     map_of [(''AUTH0_DOMAIN'', ''dev.example.auth0.com''), (''AUTH0_CLIENT_ID'', ''client1''),
             (''AUTH0_CLIENT_SECRET'', ''secret1''),
             (''AUTH0_CALLBACK_URL'', ''http://localhost:3000/callback''),
             (''API_BASE_URL'', ''http://api.example.com''), (''PORT'', ''3000'')]"

definition example_params :: jsval where
  "example_params =
     JObj [(''access_token'', JStr ''abc''), (''id_token'', JStr ''eyJ.x.y''),
           (''token_type'', JStr ''Bearer''), (''expires_in'', JNum 86400)]"

definition example_profile :: jsval where
  "example_profile = JObj [(''displayName'', JStr ''Ada'')]"

definition example_identity :: identity where
  "example_identity =
     \<lparr> profile = example_profile, accessToken = JStr ''abc'', idToken = JStr ''eyJ.x.y'',
       tokenType = JStr ''Bearer'', expiresIn = JNum 86400 \<rparr>"

definition logged_out :: session where
  "logged_out = \<lparr> passport_user = None \<rparr>"

definition logged_in :: session where
  "logged_in = \<lparr> passport_user = Some example_identity \<rparr>"

definition fetch_gives :: "fetch_result \<Rightarrow> string \<Rightarrow> (string \<times> string) list \<Rightarrow> fetch_result" where
  "fetch_gives r url headers = r"

definition stringify_stub :: "jsval \<Rightarrow> jsval" where
  "stringify_stub v = JStr ''{}''"

definition example_world :: "fetch_result \<Rightarrow> provider_result \<Rightarrow> callback_mode \<Rightarrow> world" where
  "example_world f p cm =
     \<lparr> fetch = fetch_gives f, provider = p, logout_mode = cm, JSON_stringify = stringify_stub \<rparr>"

section \<open>Facts about the middleware\<close>

lemma incoming_simps:
  "session (incoming s) = s"
  "user (incoming s) = passport_user s"
  "loggedIn (incoming s) = (passport_user s \<noteq> None)"
  by (auto simp: incoming_def passport_session_def passport_initialize_def express_session_def
      deserializeUser_def loggedIn_def split: option.splits)

lemma ensureLoggedIn_incoming:
  "ensureLoggedIn (incoming s) =
     (if passport_user s = None then (Stop, [Respond (Redirect ''/login'')]) else (Next, []))"
  by (simp add: ensureLoggedIn_def incoming_simps)

lemma truthy_member: "truthy e \<Longrightarrow> \<exists>v. member e k = Inr v"
  by (cases e) simp_all

lemma guarded_member_truthy: "truthy e \<Longrightarrow> member e k = Inr (guarded_member e k)"
  by (cases e) (simp_all add: guarded_member_def)

lemma callback_granted:
  "provider w = Granted a r e p \<Longrightarrow>
   app_get cfg w Callback s =
     (\<lparr> passport_user = Some (snd (verify a r e p)) \<rparr>,
      [ConsoleLog [LStr ''User after login:'', LUser (Some (snd (verify a r e p)))],
       Respond (Redirect ''/profile'')])"
  by (simp add: app_get_def passport_authenticate_def auth0_strategy_def verify_def
      serializeUser_def callback_handler_def incoming_simps)

lemma call_api_token:
  assumes "passport_user s = Some u" "truthy (accessToken u)"
  shows "snd (app_get cfg w CallApi s) =
     (let url = to_string (if truthy (env_val (API_BASE_URL cfg)) then env_val (API_BASE_URL cfg)
                           else JStr ''http://localhost:8080'') @ ''/secure-data'';
          headers = [(''Authorization'', ''Bearer '' @ to_string (accessToken u))]
      in Outbound url headers #
         (case fetch w url headers of
            Rejected err \<Rightarrow> catch_block err
          | Resolved status body \<Rightarrow>
              (case body of
                 Inl err \<Rightarrow> catch_block err
               | Inr text \<Rightarrow> [Respond (Send 200 (api_page text status))])))"
  using assms
  by (simp add: app_get_def ensureLoggedIn_incoming incoming_simps call_api_def Let_def)

lemma outbound_call_api:
  assumes "passport_user s = Some u" "truthy (accessToken u)"
  shows "outbound (snd (app_get cfg w CallApi s)) =
     [(to_string (if truthy (env_val (API_BASE_URL cfg)) then env_val (API_BASE_URL cfg)
                  else JStr ''http://localhost:8080'') @ ''/secure-data'',
       [(''Authorization'', ''Bearer '' @ to_string (accessToken u))])]"
  unfolding call_api_token [OF assms]
  by (simp add: Let_def catch_block_def split: fetch_result.splits sum.splits)

lemma missing_when_absent:
  assumes "k \<in> set required_env" and "e k = None"
  shows "missing_config (load_config e)"
  using assms by (auto simp: required_env_def missing_config_def load_config_def env_val_def)

lemma sublist_error_page: "sublist msg (error_page msg)"
  unfolding error_page_def by (rule sublist_appendI)

lemma logout_callback_throws:
  "logout_callback cfg = Inl (TypeError ''Cannot read properties of undefined (reading 'append')'')"
  by (simp add: logout_callback_def cannot_read_def Let_def)

lemma callback_refused:
  "provider w = Refused \<Longrightarrow> app_get cfg w Callback s = (s, [Respond (Redirect ''/'')])"
  by (simp add: app_get_def passport_authenticate_def auth0_strategy_def incoming_simps)

lemma callback_strategy_error:
  "provider w = StrategyError err \<Longrightarrow> app_get cfg w Callback s = (s, [Respond (ErrorPage err)])"
  by (simp add: app_get_def passport_authenticate_def auth0_strategy_def incoming_simps)

lemma listening_config:
  assumes "list_ex is_listen (startup e)"
  shows "\<not> missing_config (load_config e)"
  using assms by (auto simp: startup_def Let_def split: if_splits)

lemma outbound_call_api_cases:
  "outbound (snd (app_get cfg w CallApi s)) = []
   \<or> (\<exists>h. outbound (snd (app_get cfg w CallApi s)) =
        [(to_string (if truthy (env_val (API_BASE_URL cfg)) then env_val (API_BASE_URL cfg)
                  else JStr ''http://localhost:8080'') @ ''/secure-data'', h)])"
proof (cases "passport_user s")
  case None
  then show ?thesis by (simp add: app_get_def ensureLoggedIn_incoming incoming_simps)
next
  case (Some u)
  show ?thesis
  proof (cases "truthy (accessToken u)")
    case True
    from outbound_call_api [OF Some True] show ?thesis by simp
  next
    case False
    with Some show ?thesis
      by (simp add: app_get_def ensureLoggedIn_incoming incoming_simps call_api_def)
  qed
qed

section \<open>The authenticated-request gate\<close>

text \<open>
  Claim C1. On the protected routes \<^verbatim>\<open>/profile\<close> and \<^verbatim>\<open>/call-api\<close>, the gate
  \<open>ensureLoggedIn\<close> calls the next handler exactly when the request's session carries an
  identity. Without one, the whole request does nothing but answer with a redirect to
  \<^verbatim>\<open>/login\<close>: that response is its only effect and the session is left as it was. With
  one, the gate adds no effect and the route's own handler runs.
\<close>

theorem gate_permits_iff_identity:
  "(fst (ensureLoggedIn (incoming s)) = Next \<longleftrightarrow> passport_user s \<noteq> None)
   \<and> (passport_user s = None \<longrightarrow>
        ensureLoggedIn (incoming s) = (Stop, [Respond (Redirect ''/login'')])
        \<and> app_get cfg w Profile s = (s, [Respond (Redirect ''/login'')])
        \<and> app_get cfg w CallApi s = (s, [Respond (Redirect ''/login'')]))
   \<and> (passport_user s \<noteq> None \<longrightarrow>
        app_get cfg w Profile s = (s, profile_handler (JSON_stringify w) (incoming s))
        \<and> app_get cfg w CallApi s = (s, call_api cfg (fetch w) (incoming s)))"
  by (simp add: app_get_def ensureLoggedIn_incoming incoming_simps)

theorem gate_permits_iff_identity_witness:
  "passport_user logged_out = None
   \<and> app_get (load_config example_env) (example_world (Rejected (Error ''x'')) Refused Dropped) Profile logged_out
       = (logged_out, [Respond (Redirect ''/login'')])
   \<and> passport_user logged_in \<noteq> None
   \<and> fst (ensureLoggedIn (incoming logged_in)) = Next"
  using gate_permits_iff_identity [of logged_out "load_config example_env" "example_world (Rejected (Error ''x'')) Refused Dropped"]
    gate_permits_iff_identity [of logged_in]
  by (simp add: logged_out_def logged_in_def)

section \<open>The identity built on a successful callback\<close>

text \<open>
  Claim C2. When the strategy delivers \<open>(accessToken, refreshToken, extraParams, profile)\<close>
  with \<open>extraParams\<close> an object (any truthy value), the user that \<open>verify\<close> hands to
  \<^verbatim>\<open>done\<close>, which is the identity the callback route stores in the session, is the record
  of the five fields \<open>profile\<close>, \<open>accessToken\<close>, \<open>idToken\<close>, \<open>tokenType\<close>, \<open>expiresIn\<close>, holding
  the delivered profile, the delivered access token, \<^verbatim>\<open>extraParams.id_token\<close>,
  \<^verbatim>\<open>extraParams.token_type\<close> and \<^verbatim>\<open>extraParams.expires_in\<close>.
\<close>

theorem callback_identity_fields:
  assumes "truthy extraParams"
  shows "\<exists>i t x.
     member extraParams ''id_token'' = Inr i
     \<and> member extraParams ''token_type'' = Inr t
     \<and> member extraParams ''expires_in'' = Inr x
     \<and> verify a r extraParams p =
         (None, \<lparr> profile = p, accessToken = a, idToken = i, tokenType = t, expiresIn = x \<rparr>)
     \<and> (provider w = Granted a r extraParams p \<longrightarrow>
          fst (app_get cfg w Callback s) =
            \<lparr> passport_user =
                Some \<lparr> profile = p, accessToken = a, idToken = i, tokenType = t, expiresIn = x \<rparr> \<rparr>)"
proof -
  let ?i = "guarded_member extraParams ''id_token''"
  let ?t = "guarded_member extraParams ''token_type''"
  let ?x = "guarded_member extraParams ''expires_in''"
  have v: "verify a r extraParams p =
      (None, \<lparr> profile = p, accessToken = a, idToken = ?i, tokenType = ?t, expiresIn = ?x \<rparr>)"
    by (simp add: verify_def)
  have s: "provider w = Granted a r extraParams p \<longrightarrow>
          fst (app_get cfg w Callback s) =
            \<lparr> passport_user =
                Some \<lparr> profile = p, accessToken = a, idToken = ?i, tokenType = ?t, expiresIn = ?x \<rparr> \<rparr>"
    by (simp add: callback_granted v)
  from assms v s show ?thesis
    using guarded_member_truthy [OF assms] by blast
qed

theorem callback_identity_fields_witness:
  "truthy example_params
   \<and> verify (JStr ''abc'') Undefined example_params example_profile = (None, example_identity)
   \<and> fst (app_get (load_config example_env)
            (example_world (Rejected (Error ''x''))
               (Granted (JStr ''abc'') Undefined example_params example_profile) Dropped)
            Callback logged_out) = logged_in"
proof -
  have t: "truthy example_params" by (simp add: example_params_def)
  have m: "member example_params ''id_token'' = Inr (JStr ''eyJ.x.y'')"
     "member example_params ''token_type'' = Inr (JStr ''Bearer'')"
     "member example_params ''expires_in'' = Inr (JNum 86400)"
    by (simp_all add: example_params_def)
  show ?thesis
    using t m callback_identity_fields [OF t, of "JStr ''abc''" Undefined example_profile
      "example_world (Rejected (Error ''x''))
               (Granted (JStr ''abc'') Undefined example_params example_profile) Dropped"
      "load_config example_env" logged_out]
    by (auto simp: example_identity_def logged_in_def example_world_def)
qed

section \<open>The call to the protected API\<close>

text \<open>
  Claim C3. On \<^verbatim>\<open>/call-api\<close>, when the session's identity holds an access token \<open>t\<close> (a
  non-empty string, which is what the handler's own test takes for a token), the handler
  issues exactly one outbound request, and its \<^verbatim>\<open>Authorization\<close> header is \<^verbatim>\<open>Bearer\<close>, a
  space and \<open>t\<close>. When that request resolves with a status and a body, the handler answers
  once, with the page of the template: the body is in it as it came, followed by the
  status in decimal.
\<close>

theorem call_api_bearer_and_render:
  assumes "passport_user s = Some u" and "accessToken u = JStr t" and "t \<noteq> []"
  shows "\<exists>url. outbound (snd (app_get cfg w CallApi s)) = [(url, [(''Authorization'', ''Bearer '' @ t)])]
     \<and> (\<forall>status text.
          fetch w url [(''Authorization'', ''Bearer '' @ t)] = Resolved status (Inr text) \<longrightarrow>
            responses (snd (app_get cfg w CallApi s)) = [Send 200 (api_page text status)]
            \<and> (\<exists>pre mid post. api_page text status = pre @ text @ mid @ string_of_nat status @ post))"
proof -
  have tr: "truthy (accessToken u)" using assms by simp
  let ?url = "to_string (if truthy (env_val (API_BASE_URL cfg)) then env_val (API_BASE_URL cfg)
                  else JStr ''http://localhost:8080'') @ ''/secure-data''"
  have o: "outbound (snd (app_get cfg w CallApi s)) = [(?url, [(''Authorization'', ''Bearer '' @ t)])]"
    using outbound_call_api [OF assms(1) tr, of cfg w] assms(2) by simp
  have r: "responses (snd (app_get cfg w CallApi s)) = [Send 200 (api_page body status)]"
    if "fetch w ?url [(''Authorization'', ''Bearer '' @ t)] = Resolved status (Inr body)" for status body
    unfolding call_api_token [OF assms(1) tr] using that assms(2) by (simp add: Let_def)
  have p: "\<exists>pre mid post. api_page body status = pre @ body @ mid @ string_of_nat status @ post"
    for body status
  proof -
    have ts: "to_string (JNum (int status)) = string_of_nat status"
      by (simp del: string_of_nat.simps)
    show ?thesis unfolding api_page_def ts by (intro exI) (rule refl)
  qed
  from o r p show ?thesis by blast
qed


theorem call_api_bearer_and_render_witness:
  "passport_user logged_in = Some example_identity
   \<and> accessToken example_identity = JStr ''abc''
   \<and> ''abc'' \<noteq> []
   \<and> outbound (snd (app_get (load_config example_env)
         (example_world (Resolved 200 (Inr ''hello'')) Refused Dropped) CallApi logged_in))
       = [(''http://api.example.com/secure-data'', [(''Authorization'', ''Bearer abc'')])]
   \<and> responses (snd (app_get (load_config example_env)
         (example_world (Resolved 200 (Inr ''hello'')) Refused Dropped) CallApi logged_in))
       = [Send 200 (api_page ''hello'' 200)]"
proof -
  let ?w = "example_world (Resolved 200 (Inr ''hello'')) Refused Dropped"
  let ?cfg = "load_config example_env"
  have a: "passport_user logged_in = Some example_identity" by (simp add: logged_in_def)
  have b: "accessToken example_identity = JStr ''abc''" by (simp add: example_identity_def)
  have c: "''abc'' \<noteq> []" by simp
  have f: "fetch ?w url h = Resolved 200 (Inr ''hello'')" for url h
    by (simp add: example_world_def fetch_gives_def)
  have o: "outbound (snd (app_get ?cfg ?w CallApi logged_in))
       = [(''http://api.example.com/secure-data'', [(''Authorization'', ''Bearer abc'')])]"
    using outbound_call_api [OF a, of ?cfg ?w] b
    by (simp add: load_config_def example_env_def env_val_def)
  from call_api_bearer_and_render [OF a b c, of ?cfg ?w] f
  have "responses (snd (app_get ?cfg ?w CallApi logged_in)) = [Send 200 (api_page ''hello'' 200)]"
    by blast
  with a b c o show ?thesis by blast
qed

text \<open>
  Claim C6. When the identity holds an access token and the outbound request is rejected
  with an error, the handler answers exactly once, with status 500 and the error page,
  which contains the error's message as it is; the outbound request was made once and is
  not made again.
\<close>

theorem call_api_transport_failure:
  assumes "passport_user s = Some u" and "truthy (accessToken u)"
    and "\<forall>url h. (url, h) \<in> set (outbound (snd (app_get cfg w CallApi s))) \<longrightarrow>
           fetch w url h = Rejected err"
  shows "responses (snd (app_get cfg w CallApi s)) = [Send 500 (error_page (message err))]
     \<and> sublist (message err) (error_page (message err))
     \<and> length (outbound (snd (app_get cfg w CallApi s))) = 1"
proof -
  let ?url = "to_string (if truthy (env_val (API_BASE_URL cfg)) then env_val (API_BASE_URL cfg)
                  else JStr ''http://localhost:8080'') @ ''/secure-data''"
  let ?h = "[(''Authorization'', ''Bearer '' @ to_string (accessToken u))]"
  have o: "outbound (snd (app_get cfg w CallApi s)) = [(?url, ?h)]"
    by (rule outbound_call_api [OF assms(1,2)])
  with assms(3) have f: "fetch w ?url ?h = Rejected err" by simp
  have r: "responses (snd (app_get cfg w CallApi s)) = [Send 500 (error_page (message err))]"
    unfolding call_api_token [OF assms(1,2)] using f by (simp add: Let_def catch_block_def)
  from o r sublist_error_page show ?thesis by simp
qed

theorem call_api_transport_failure_witness:
  "passport_user logged_in = Some example_identity
   \<and> truthy (accessToken example_identity)
   \<and> responses (snd (app_get (load_config example_env)
         (example_world (Rejected (TypeError ''fetch failed'')) Refused Dropped) CallApi logged_in))
       = [Send 500 (error_page ''fetch failed'')]
   \<and> sublist ''fetch failed'' (error_page ''fetch failed'')"
proof -
  let ?w = "example_world (Rejected (TypeError ''fetch failed'')) Refused Dropped"
  let ?cfg = "load_config example_env"
  have a: "passport_user logged_in = Some example_identity" by (simp add: logged_in_def)
  have b: "truthy (accessToken example_identity)" by (simp add: example_identity_def)
  have f: "\<forall>url h. (url, h) \<in> set (outbound (snd (app_get ?cfg ?w CallApi logged_in))) \<longrightarrow>
           fetch ?w url h = Rejected (TypeError ''fetch failed'')"
    by (simp add: example_world_def fetch_gives_def)
  from call_api_transport_failure [OF a b f] a b show ?thesis by simp
qed

text \<open>
  Claim C9. When the request passes the gate (the session holds an identity) and the
  identity's access token is missing or falsy, the handler answers with status 401 and
  the body \<^verbatim>\<open>No access token. Please log in again.\<close>; that response is the only effect,
  and no outbound request is made.
\<close>

theorem call_api_without_token:
  assumes "passport_user s = Some u" and "\<not> truthy (accessToken u)"
  shows "app_get cfg w CallApi s = (s, [Respond (Send 401 ''No access token. Please log in again.'')])
     \<and> outbound (snd (app_get cfg w CallApi s)) = []"
  using assms
  by (simp add: app_get_def ensureLoggedIn_incoming incoming_simps call_api_def)

theorem call_api_without_token_witness:
  "passport_user \<lparr> passport_user = Some (example_identity \<lparr> accessToken := Undefined \<rparr>) \<rparr>
     = Some (example_identity \<lparr> accessToken := Undefined \<rparr>)
   \<and> \<not> truthy (accessToken (example_identity \<lparr> accessToken := Undefined \<rparr>))
   \<and> snd (app_get (load_config example_env) (example_world (Rejected (Error ''x'')) Refused Dropped)
        CallApi \<lparr> passport_user = Some (example_identity \<lparr> accessToken := Undefined \<rparr>) \<rparr>)
      = [Respond (Send 401 ''No access token. Please log in again.'')]"
proof -
  let ?u = "example_identity \<lparr> accessToken := Undefined \<rparr>"
  have a: "passport_user \<lparr> passport_user = Some ?u \<rparr> = Some ?u" by simp
  have b: "\<not> truthy (accessToken ?u)" by simp
  from call_api_without_token [OF a b] a b show ?thesis by simp
qed

text \<open>
  Claim C10. In a process whose startup reached \<^verbatim>\<open>app.listen\<close>, every outbound request of
  \<^verbatim>\<open>/call-api\<close> goes to the value of \<^verbatim>\<open>API_BASE_URL\<close>, which is set and not empty,
  followed by \<^verbatim>\<open>/secure-data\<close>: the fallback \<^verbatim>\<open>http://localhost:8080\<close> of the handler is
  never taken.
\<close>

theorem api_url_from_configuration:
  assumes "list_ex is_listen (startup e)"
    and "(url, h) \<in> set (outbound (snd (app_get (load_config e) w CallApi s)))"
  shows "\<exists>b. e ''API_BASE_URL'' = Some b \<and> b \<noteq> [] \<and> url = b @ ''/secure-data''"
proof -
  from listening_config [OF assms(1)]
  have t: "truthy (env_val (API_BASE_URL (load_config e)))"
    by (simp add: missing_config_def)
  then obtain b where b: "e ''API_BASE_URL'' = Some b" "b \<noteq> []"
    by (auto simp: load_config_def env_val_def split: option.splits)
  from outbound_call_api_cases [of "load_config e" w s] assms(2) t
  have "url = to_string (env_val (API_BASE_URL (load_config e))) @ ''/secure-data''"
    by auto
  with b show ?thesis by (simp add: load_config_def env_val_def)
qed

theorem api_url_from_configuration_witness:
  "list_ex is_listen (startup example_env)
   \<and> (''http://api.example.com/secure-data'', [(''Authorization'', ''Bearer abc'')])
       \<in> set (outbound (snd (app_get (load_config example_env)
             (example_world (Resolved 200 (Inr ''hello'')) Refused Dropped) CallApi logged_in)))
   \<and> example_env ''API_BASE_URL'' = Some ''http://api.example.com''"
proof -
  let ?w = "example_world (Resolved 200 (Inr ''hello'')) Refused Dropped"
  have a: "list_ex is_listen (startup example_env)"
    by (simp add: startup_def load_config_def example_env_def missing_config_def env_val_def)
  have u: "passport_user logged_in = Some example_identity" by (simp add: logged_in_def)
  have t: "truthy (accessToken example_identity)" by (simp add: example_identity_def)
  have o: "(''http://api.example.com/secure-data'', [(''Authorization'', ''Bearer abc'')])
       \<in> set (outbound (snd (app_get (load_config example_env) ?w CallApi logged_in)))"
    using outbound_call_api [OF u t, of "load_config example_env" ?w]
    by (simp add: load_config_def example_env_def env_val_def example_identity_def)
  from api_url_from_configuration [OF a o] a o show ?thesis
    by (simp add: example_env_def)
qed

section \<open>Startup\<close>

text \<open>
  Claim C4. If one of the six required environment variables is absent, startup prints
  the error message and exits with status 1, and does nothing else: no listener is
  bound.
\<close>

theorem startup_missing_variable_exits:
  assumes "k \<in> set required_env" and "e k = None"
  shows "startup e = [ConsoleError [LStr missing_message], ProcessExit 1]
     \<and> exit_codes (startup e) = [1]
     \<and> \<not> list_ex is_listen (startup e)"
  using missing_when_absent [of k e, OF assms] by (simp add: startup_def)

theorem startup_missing_variable_exits_witness:
  "''PORT'' \<in> set required_env
   \<and> (example_env(''PORT'' := None)) ''PORT'' = None
   \<and> startup (example_env(''PORT'' := None)) = [ConsoleError [LStr missing_message], ProcessExit 1]
   \<and> list_ex is_listen (startup example_env)"
proof -
  have a: "''PORT'' \<in> set required_env" by (simp add: required_env_def)
  have b: "(example_env(''PORT'' := None)) ''PORT'' = None" by simp
  have c: "list_ex is_listen (startup example_env)"
    by (simp add: startup_def load_config_def example_env_def missing_config_def env_val_def)
  from startup_missing_variable_exits [of "''PORT''" "example_env(''PORT'' := None)", OF a b] a b c
  show ?thesis by blast
qed

section \<open>The home page\<close>

text \<open>
  Claim C5. A request to the root route is answered with status 200 and a page that
  contains \<^verbatim>\<open>Logged Out\<close> (and not \<^verbatim>\<open>Logged In\<close>) when the session holds no identity, and
  \<^verbatim>\<open>Logged In\<close> (and not \<^verbatim>\<open>Logged Out\<close>) when it holds one; the session is left as it was.
\<close>

theorem home_page_status:
  "\<exists>body. app_get cfg w Root s = (s, [Respond (Send 200 body)])
     \<and> (passport_user s = None \<longrightarrow> sublist ''Logged Out'' body \<and> \<not> sublist ''Logged In'' body)
     \<and> (passport_user s \<noteq> None \<longrightarrow> sublist ''Logged In'' body \<and> \<not> sublist ''Logged Out'' body)"
proof -
  have r: "app_get cfg w Root s = (s, [Respond (Send 200 (home_page (passport_user s \<noteq> None)))])"
    by (simp add: app_get_def homePage_def incoming_simps)
  have o: "sublist ''Logged Out'' (home_page False)" "\<not> sublist ''Logged In'' (home_page False)"
    by code_simp+
  have i: "sublist ''Logged In'' (home_page True)" "\<not> sublist ''Logged Out'' (home_page True)"
    by code_simp+
  from r o i show ?thesis by auto
qed

theorem home_page_status_witness:
  "passport_user logged_out = None \<and> passport_user logged_in \<noteq> None
   \<and> app_get (load_config example_env) (example_world (Rejected (Error ''x'')) Refused Dropped) Root logged_out
       = (logged_out, [Respond (Send 200 (home_page False))])
   \<and> sublist ''Logged Out'' (home_page False)
   \<and> sublist ''Logged In'' (home_page True)"
proof -
  let ?w = "example_world (Rejected (Error ''x'')) Refused Dropped"
  let ?cfg = "load_config example_env"
  have a: "passport_user logged_out = None" "passport_user logged_in \<noteq> None"
    by (simp_all add: logged_out_def logged_in_def)
  have b: "app_get ?cfg ?w Root logged_out = (logged_out, [Respond (Send 200 (home_page False))])"
    "app_get ?cfg ?w Root logged_in = (logged_in, [Respond (Send 200 (home_page True))])"
    using a by (simp_all add: app_get_def homePage_def incoming_simps)
  from home_page_status [of ?cfg ?w logged_out] home_page_status [of ?cfg ?w logged_in] a b
  show ?thesis by auto
qed

section \<open>Logout\<close>

text \<open>
  Claim C7, as the code has it. The callback that would redirect to the provider's logout
  endpoint always throws, at \<^verbatim>\<open>logoutURL.searchParams.append\<close>, since \<open>logoutURL\<close> is a
  string; and the handler answers with \<^verbatim>\<open>res.redirect('/')\<close> whatever the callback does.
  So every request to \<^verbatim>\<open>/logout\<close> clears the session's user and is answered by exactly one
  response, a redirect to the home route, never one to the provider's logout endpoint.
\<close>

theorem logout_answers_home_redirect:
  "logout_callback cfg = Inl (TypeError ''Cannot read properties of undefined (reading 'append')'')
   \<and> responses (snd (app_get cfg w Logout s)) = [Redirect ''/'']
   \<and> fst (app_get cfg w Logout s) = \<lparr> passport_user = None \<rparr>"
  by (cases "logout_mode w")
     (simp_all add: logout_callback_throws app_get_def logout_handler_def req_logout_def
        incoming_simps Let_def)

theorem logout_answers_home_redirect_witness:
  "app_get (load_config example_env) (example_world (Rejected (Error ''x'')) Refused Deferred)
     Logout logged_in =
   (logged_out,
    [Respond (Redirect ''/''),
     Uncaught (TypeError ''Cannot read properties of undefined (reading 'append')'')])
   \<and> responses (snd (app_get (load_config example_env)
         (example_world (Rejected (Error ''x'')) Refused Deferred) Logout logged_in))
       = [Redirect ''/'']"
proof -
  let ?w = "example_world (Rejected (Error ''x'')) Refused Deferred"
  let ?cfg = "load_config example_env"
  have m: "logout_mode ?w = Deferred" by (simp add: example_world_def)
  from logout_answers_home_redirect [of ?cfg ?w logged_in]
  have c: "logout_callback ?cfg = Inl (TypeError ''Cannot read properties of undefined (reading 'append')'')"
    and r: "responses (snd (app_get ?cfg ?w Logout logged_in)) = [Redirect ''/'']"
    by simp_all
  have "app_get ?cfg ?w Logout logged_in =
     (logged_out,
      [Respond (Redirect ''/''),
       Uncaught (TypeError ''Cannot read properties of undefined (reading 'append')'')])"
    by (simp add: c m app_get_def logout_handler_def req_logout_def incoming_simps Let_def
        logged_out_def)
  with r show ?thesis by simp
qed

section \<open>The callback route\<close>

text \<open>
  Claim C8, amended. On the callback route, a granted login stores the identity that
  \<open>verify\<close> built in the session and is answered with a redirect to \<^verbatim>\<open>/profile\<close>. A login
  that the provider denies, or for which it reports an error in the callback, so that
  the strategy fails, is answered with a redirect to the home route, and the session is
  left as it was. An error raised by the strategy itself (a token exchange that does not
  complete) also leaves the session as it was, so no identity is created, but it is
  passed on as an error and answered by the framework's error page, not by a redirect.
\<close>

theorem callback_route_outcomes:
  "(provider w = Granted a r e p \<longrightarrow>
      app_get cfg w Callback s =
        (\<lparr> passport_user = Some (snd (verify a r e p)) \<rparr>,
         [ConsoleLog [LStr ''User after login:'', LUser (Some (snd (verify a r e p)))],
          Respond (Redirect ''/profile'')]))
   \<and> (provider w = Refused \<longrightarrow> app_get cfg w Callback s = (s, [Respond (Redirect ''/'')]))
   \<and> (provider w = StrategyError err \<longrightarrow>
        app_get cfg w Callback s = (s, [Respond (ErrorPage err)]))"
  by (simp add: callback_granted callback_refused callback_strategy_error)

theorem callback_route_outcomes_witness:
  "app_get (load_config example_env)
     (example_world (Rejected (Error ''x''))
        (Granted (JStr ''abc'') Undefined example_params example_profile) Dropped)
     Callback logged_out =
     (logged_in,
      [ConsoleLog [LStr ''User after login:'', LUser (Some example_identity)],
       Respond (Redirect ''/profile'')])
   \<and> app_get (load_config example_env) (example_world (Rejected (Error ''x'')) Refused Dropped)
       Callback logged_in = (logged_in, [Respond (Redirect ''/'')])
   \<and> app_get (load_config example_env)
       (example_world (Rejected (Error ''x'')) (StrategyError (Error ''y'')) Dropped)
       Callback logged_in = (logged_in, [Respond (ErrorPage (Error ''y''))])"
proof -
  have v: "snd (verify (JStr ''abc'') Undefined example_params example_profile) = example_identity"
    by (simp add: verify_def example_identity_def example_params_def guarded_member_def)
  show ?thesis
    using callback_route_outcomes [of
        "example_world (Rejected (Error ''x''))
          (Granted (JStr ''abc'') Undefined example_params example_profile) Dropped"
        "JStr ''abc''" Undefined example_params example_profile "load_config example_env" logged_out]
      callback_route_outcomes [of "example_world (Rejected (Error ''x'')) Refused Dropped"
        _ _ _ _ "load_config example_env" logged_in]
      callback_route_outcomes [of
        "example_world (Rejected (Error ''x'')) (StrategyError (Error ''y'')) Dropped"
        _ _ _ _ "load_config example_env" logged_in "Error ''y''"]
    by (simp add: v example_world_def logged_in_def)
qed

text \<open>
  Claim C8 as it was stated fails where the provider's side ends in an error of the
  strategy: with the token exchange failing on a callback of a logged-out session, the
  response is the framework's error page and not a redirect to the home route.
\<close>

theorem callback_error_not_home_redirect:
  "responses (snd (app_get (load_config example_env)
      (example_world (Rejected (Error ''x''))
         (StrategyError (Error ''Failed to obtain access token'')) Dropped)
      Callback logged_out))
   = [ErrorPage (Error ''Failed to obtain access token'')]
   \<and> responses (snd (app_get (load_config example_env)
      (example_world (Rejected (Error ''x''))
         (StrategyError (Error ''Failed to obtain access token'')) Dropped)
      Callback logged_out))
   \<noteq> [Redirect ''/'']"
  by (simp add: app_get_def passport_authenticate_def auth0_strategy_def incoming_simps
      example_world_def)

end
